theory Spec2Isabelle
  imports Complex_Main "HOL-Library.Multiset"
begin

section \<open>Data model (types.ts)\<close>

text \<open>
  The enums of the source. \<open>SecurityScore.CRITICAL\<close> is written \<open>SCORE_CRITICAL\<close>, since
  \<open>Severity\<close> has a member of the same name. At run time a severity is a string, and
  \<open>getSeverityWeight\<close> has a \<open>default\<close> branch for a value outside the enum:
  \<open>OTHER_SEVERITY\<close> stands for such a value.
\<close>

datatype SecurityScore = EXCELLENT | GOOD | FAIR | POOR | SCORE_CRITICAL

datatype CheckStatus = PASS | FAIL | WARNING | SKIP | ERROR

datatype Severity = CRITICAL | HIGH | MEDIUM | LOW | INFO | OTHER_SEVERITY string

datatype SecurityCategory =
    AUTHENTICATION | AUTHORIZATION | ENCRYPTION | NETWORK
  | CONFIGURATION | COMPLIANCE | AVAILABILITY | DATA_PROTECTION

datatype Protocol = Http | Https | Ws | Wss

text \<open>
  The interfaces of the source as records. Field names that several interfaces share
  (\<open>id\<close>, \<open>name\<close>, \<open>title\<close>, \<open>description\<close>, \<open>severity\<close>, \<open>category\<close>) carry the
  interface as a prefix; an optional field \<open>f?: T\<close> is a \<open>T option\<close>.
\<close>

record SecurityCheck =
  check_id :: string
  check_name :: string
  check_category :: SecurityCategory
  status :: CheckStatus
  check_severity :: Severity
  check_description :: string
  details :: "string option"
  evidence :: "string option"

record SecurityRecommendation =
  rec_id :: string
  rec_title :: string
  rec_description :: string
  rec_severity :: Severity
  rec_category :: SecurityCategory
  actionRequired :: bool
  resources :: "string list option"

record Vulnerability =
  vuln_id :: string
  cve :: "string option"
  vuln_title :: string
  vuln_description :: string
  vuln_severity :: Severity
  vuln_category :: SecurityCategory
  affected :: string
  remediation :: "string option"
  references :: "string list option"

text \<open>
  A probe resolves to an object \<open>{ checks, recommendations, vulnerabilities }\<close>; the
  analysis result has the same three arrays beside the fields that identify the server.
\<close>

record findings =
  checks :: "SecurityCheck list"
  recommendations :: "SecurityRecommendation list"
  vulnerabilities :: "Vulnerability list"

record SecurityAnalysisResult = findings +
  serverId :: string
  serverName :: string
  result_endpoint :: string
  timestamp :: int
  overallScore :: SecurityScore

record RateLimit =
  requests :: int
  window :: string

datatype AuthenticationType = AuthNone | ApiKey | Bearer | OAuth2 | Custom

record AuthenticationMethod =
  auth_type :: AuthenticationType
  auth_details :: "(string \<times> string) list option"

record MCPServerMetadata =
  capabilities :: "string list option"
  authentication :: "AuthenticationMethod option"
  rateLimit :: "RateLimit option"
  documentation :: "string option"
  repository :: "string option"
  license :: "string option"
  tags :: "string list option"

record MCPServer =
  server_id :: string
  server_name :: string
  version :: string
  description :: "string option"
  endpoint :: string
  protocol :: Protocol
  owner :: "string option"
  lastSeen :: int
  metadata :: "MCPServerMetadata option"

record DiscoveryResult =
  source :: string
  servers :: "MCPServer list"
  errors :: "string list"
  duration :: nat

subsection \<open>Thrown values\<close>

text \<open>
  What a \<open>catch\<close> clause receives: an \<open>Error\<close> object with its name and message, or
  some other value, kept as the text \<open>String(value)\<close> gives.
\<close>

datatype js_error = JsError string string | Thrown string

text \<open>\<open>error instanceof Error ? error.message : 'Unknown error'\<close>\<close>

fun error_message :: "js_error \<Rightarrow> string" where
  "error_message (JsError name message) = message"
| "error_message (Thrown v) = ''Unknown error''"

text \<open>The text of \<open>${error}\<close> in a template literal (\<open>Error.prototype.toString\<close>).\<close>

fun error_toString :: "js_error \<Rightarrow> string" where
  "error_toString (JsError name message) =
     (if name = [] then message else if message = [] then name
      else name @ '': '' @ message)"
| "error_toString (Thrown v) = v"

record SecurityAnalysisError =
  error_text :: string
  error_code :: string
  error_server :: MCPServer
  error_cause :: js_error

datatype 'a settled = Fulfilled 'a | Rejected js_error

text \<open>The lines written to the console, one constructor for each call site.\<close>

datatype log_entry =
    LogDiscoveryStart
  | LogDiscovered nat
  | LogNoServers
  | LogAnalysisStart
  | LogAnalyzing string string
  | LogCheckFailed nat js_error
  | LogAnalyzeFailed string SecurityAnalysisError
  | LogCompleted nat
  | LogAuditFailed js_error

section \<open>The network and the clock\<close>

text \<open>
  Everything the probes obtain from outside the repository is a field of the
  environment: the answers of axios at each call site (a response, or the value the
  request rejects with), the WebSocket handshake, the URL parser, the TLS socket that
  hands over the peer certificate, the clock, the date parser and the date formatter. A
  date is its time value in milliseconds, with \<open>None\<close> for an Invalid Date.
  \<open>finish_schedule\<close> says in which order concurrent analyses finish.
  \<open>peer_tls_versions\<close> records which protocol versions the peer would really negotiate;
  no function of the source asks for it.
\<close>

datatype call_site =
  AvailabilityGet | AuthenticationGet | HttpSecurityGet | ApiEndpointGet | CorsOptions

datatype response_data = StringData string | JsonData string

record http_response =
  http_status :: nat
  statusText :: string
  headers :: "(string \<times> string) list"
  resp_data :: response_data

record url =
  hostname :: string
  url_port :: "nat option"

text \<open>
  The object that \<open>socket.getPeerCertificate()\<close> returns: its two dates are the
  properties \<open>valid_from\<close> and \<open>valid_to\<close>, texts such as
  \<open>Nov 13 22:13:20 2023 GMT\<close>; the empty object, returned when the peer presents no
  certificate, has neither. (The socket returns \<open>null\<close> once it is destroyed: \<open>None\<close> in
  \<open>tls_peer_certificate\<close>.)
\<close>

record peer_certificate =
  valid_from :: "string option"
  valid_to :: "string option"

datatype tls_version = SSLv3 | TLSv1 | TLSv1_1 | TLSv1_2 | TLSv1_3

record environment =
  analysis_clock :: int
  ssl_clock :: int
  http_request :: "call_site \<Rightarrow> string \<Rightarrow> js_error + http_response"
  websocket_open :: "string \<Rightarrow> js_error option"
  parse_URL :: "string \<Rightarrow> js_error + url"
  tls_peer_certificate :: "string \<Rightarrow> nat \<Rightarrow> js_error + peer_certificate option"
  date_parse :: "string \<Rightarrow> int option"
  date_toISOString :: "int \<Rightarrow> string"
  finish_schedule :: "nat list"
  peer_tls_versions :: "string \<Rightarrow> tls_version list"

section \<open>Strings\<close>

definition digit_char :: "nat \<Rightarrow> char" where
  "digit_char d = char_of (48 + d)"

function string_of_nat :: "nat \<Rightarrow> string" where
  "string_of_nat n =
     (if n < 10 then [digit_char n] else string_of_nat (n div 10) @ [digit_char (n mod 10)])"
  by pat_completeness auto
termination
  by (relation "measure id") auto

definition upper_letters :: string where
  "upper_letters = ''ABCDEFGHIJKLMNOPQRSTUVWXYZ''"

definition lower_letters :: string where
  "lower_letters = ''abcdefghijklmnopqrstuvwxyz''"

definition toLowerCase :: "string \<Rightarrow> string" where
  "toLowerCase s =
     map (\<lambda>c. case map_of (zip upper_letters lower_letters) c of Some l \<Rightarrow> l | None \<Rightarrow> c) s"

definition startsWith :: "string \<Rightarrow> string \<Rightarrow> bool" where
  "startsWith p s = (take (length p) s = p)"

text \<open>\<open>s.replace('/', r)\<close>: the first occurrence only.\<close>

fun replace_first :: "char \<Rightarrow> string \<Rightarrow> string \<Rightarrow> string" where
  "replace_first c r [] = []"
| "replace_first c r (x # xs) = (if x = c then r @ xs else x # replace_first c r xs)"

text \<open>\<open>s.replace(/\/$/, '')\<close>: one slash at the very end is dropped.\<close>

definition strip_trailing_slash :: "string \<Rightarrow> string" where
  "strip_trailing_slash s = (if s \<noteq> [] \<and> last s = CHR ''/'' then butlast s else s)"

section \<open>The Scorer (SecurityAnalyzer.calculateSecurityScore)\<close>

text \<open>
  JavaScript numbers are modelled by exact rationals. The two accumulators of the source
  hold multiples of one half bounded by ten times the length of the array, which a
  double represents exactly. The source rounds the quotient and its product by 100, and
  the grade only compares the result with 90, 80, 60 and 40: an exact percentage below a
  threshold is below it by at least 10 / maxScore, far more than the rounding, and the
  doubles nearest to 0.9, 0.8, 0.6 and 0.4 give exactly 90, 80, 60 and 40 when
  multiplied by 100, so the comparisons of the source are those of the exact values.
\<close>

fun getSeverityWeight :: "Severity \<Rightarrow> rat" where
  "getSeverityWeight CRITICAL = 10"
| "getSeverityWeight HIGH = 8"
| "getSeverityWeight MEDIUM = 5"
| "getSeverityWeight LOW = 2"
| "getSeverityWeight INFO = 1"
| "getSeverityWeight (OTHER_SEVERITY s) = 1"

text \<open>
  The locals of \<open>calculateSecurityScore\<close> together with the array it was given: the
  callback of \<open>checks.forEach\<close> reads one element and updates the two accumulators.
\<close>

record scorer_state =
  st_checks :: "SecurityCheck list"
  totalScore :: rat
  maxScore :: rat

definition score_check :: "SecurityCheck \<Rightarrow> scorer_state \<Rightarrow> scorer_state" where
  "score_check check s =
     (let severityWeight = getSeverityWeight (check_severity check);
          s1 = s\<lparr>maxScore := maxScore s + severityWeight\<rparr>
      in if status check = PASS then s1\<lparr>totalScore := totalScore s1 + severityWeight\<rparr>
         else if status check = WARNING
              then s1\<lparr>totalScore := totalScore s1 + severityWeight * (1 / 2)\<rparr>
         else s1)"

definition grade_of_state :: "scorer_state \<Rightarrow> SecurityScore" where
  "grade_of_state s =
     (if maxScore s = 0 then FAIR
      else let percentage = (totalScore s / maxScore s) * 100
           in if percentage \<ge> 90 then EXCELLENT
              else if percentage \<ge> 80 then GOOD
              else if percentage \<ge> 60 then FAIR
              else if percentage \<ge> 40 then POOR
              else SCORE_CRITICAL)"

text \<open>The grade, and the array as the call leaves it.\<close>

definition calculateSecurityScore_st :: "SecurityCheck list \<Rightarrow> SecurityScore \<times> SecurityCheck list" where
  "calculateSecurityScore_st cs =
     (let s = fold score_check cs \<lparr>st_checks = cs, totalScore = 0, maxScore = 0\<rparr>
      in (grade_of_state s, st_checks s))"

definition calculateSecurityScore :: "SecurityCheck list \<Rightarrow> SecurityScore" where
  "calculateSecurityScore cs = fst (calculateSecurityScore_st cs)"

subsection \<open>The algorithm in the words of the specification\<close>

definition spec_weight :: "Severity \<Rightarrow> rat" where
  "spec_weight sev =
     (case sev of CRITICAL \<Rightarrow> 10 | HIGH \<Rightarrow> 8 | MEDIUM \<Rightarrow> 5 | LOW \<Rightarrow> 2 | INFO \<Rightarrow> 1
      | OTHER_SEVERITY _ \<Rightarrow> 1)"

definition spec_maxScore :: "SecurityCheck list \<Rightarrow> rat" where
  "spec_maxScore cs = (\<Sum>c\<leftarrow>cs. spec_weight (check_severity c))"

definition spec_gain :: "SecurityCheck \<Rightarrow> rat" where
  "spec_gain c =
     (if status c = PASS then spec_weight (check_severity c)
      else if status c = WARNING then spec_weight (check_severity c) / 2
      else 0)"

definition spec_totalScore :: "SecurityCheck list \<Rightarrow> rat" where
  "spec_totalScore cs = (\<Sum>c\<leftarrow>cs. spec_gain c)"

definition spec_grade :: "SecurityCheck list \<Rightarrow> SecurityScore" where
  "spec_grade cs =
     (if spec_maxScore cs = 0 then FAIR
      else let percentage = 100 * spec_totalScore cs / spec_maxScore cs
           in if percentage \<ge> 90 then EXCELLENT
              else if percentage \<ge> 80 then GOOD
              else if percentage \<ge> 60 then FAIR
              else if percentage \<ge> 40 then POOR
              else SCORE_CRITICAL)"

section \<open>The probes (SecurityAnalyzer)\<close>

text \<open>The object literals of the source, fields in the order the source writes them.\<close>

definition mk_check ::
  "string \<Rightarrow> string \<Rightarrow> SecurityCategory \<Rightarrow> CheckStatus \<Rightarrow> Severity \<Rightarrow> string \<Rightarrow> string option
     \<Rightarrow> SecurityCheck" where
  "mk_check i n c st sev d det =
     \<lparr>check_id = i, check_name = n, check_category = c, status = st, check_severity = sev,
      check_description = d, details = det, evidence = None\<rparr>"

definition mk_vulnerability ::
  "string \<Rightarrow> string \<Rightarrow> string \<Rightarrow> Severity \<Rightarrow> SecurityCategory \<Rightarrow> string \<Rightarrow> string
     \<Rightarrow> Vulnerability" where
  "mk_vulnerability i t d sev c a r =
     \<lparr>vuln_id = i, cve = None, vuln_title = t, vuln_description = d, vuln_severity = sev,
      vuln_category = c, affected = a, remediation = Some r, references = None\<rparr>"

definition mk_recommendation ::
  "string \<Rightarrow> string \<Rightarrow> string \<Rightarrow> Severity \<Rightarrow> SecurityCategory \<Rightarrow> bool \<Rightarrow> string list option
     \<Rightarrow> SecurityRecommendation" where
  "mk_recommendation i t d sev c a r =
     \<lparr>rec_id = i, rec_title = t, rec_description = d, rec_severity = sev,
      rec_category = c, actionRequired = a, resources = r\<rparr>"

definition no_findings :: findings where
  "no_findings = \<lparr>checks = [], recommendations = [], vulnerabilities = []\<rparr>"

text \<open>
  \<open>response.headers[h]\<close>, and whether a header value is truthy: present and not the empty
  string.
\<close>

definition header :: "http_response \<Rightarrow> string \<Rightarrow> string option" where
  "header response h = map_of (headers response) h"

fun truthy :: "string option \<Rightarrow> bool" where
  "truthy None = False"
| "truthy (Some v) = (v \<noteq> [])"

text \<open>\<open>a || b\<close> on two header values.\<close>

definition or_else :: "string option \<Rightarrow> string option \<Rightarrow> string option" where
  "or_else a b = (if truthy a then a else b)"

subsection \<open>checkEndpointAvailability\<close>

text \<open>
  The \<open>catch\<close> clause pushes onto the arrays as the \<open>try\<close> block left them; the block
  pushes only after its last call that can throw, so they are empty there.
\<close>

definition endpoint_unreachable :: "MCPServer \<Rightarrow> js_error \<Rightarrow> findings" where
  "endpoint_unreachable server error =
     \<lparr>checks = [mk_check ''endpoint-availability'' ''Endpoint Availability'' AVAILABILITY
                  FAIL CRITICAL ''Endpoint is not accessible'' (Some (error_message error))],
      recommendations = [],
      vulnerabilities = [mk_vulnerability ''endpoint-unreachable'' ''Endpoint Unreachable''
                  ''The MCP server endpoint cannot be reached'' HIGH AVAILABILITY
                  (endpoint server) ''Verify server is running and network connectivity'']\<rparr>"

definition checkEndpointAvailability :: "environment \<Rightarrow> MCPServer \<Rightarrow> findings" where
  "checkEndpointAvailability env server =
     (if protocol server = Ws \<or> protocol server = Wss then
        (case websocket_open env (endpoint server) of
           Some error \<Rightarrow> endpoint_unreachable server error
         | None \<Rightarrow>
             no_findings\<lparr>checks := [mk_check ''endpoint-availability-ws''
               ''WebSocket Endpoint Availability'' AVAILABILITY PASS HIGH
               ''WebSocket endpoint is accessible and responding'' None]\<rparr>)
      else
        (case http_request env AvailabilityGet (endpoint server) of
           Inl error \<Rightarrow> endpoint_unreachable server error
         | Inr response \<Rightarrow>
             if http_status response \<ge> 200 \<and> http_status response < 300 then
               no_findings\<lparr>checks := [mk_check ''endpoint-availability-http''
                 ''HTTP Endpoint Availability'' AVAILABILITY PASS HIGH
                 ''HTTP endpoint is accessible and responding normally'' None]\<rparr>
             else if http_status response \<ge> 400 then
               no_findings\<lparr>checks := [mk_check ''endpoint-availability-http''
                 ''HTTP Endpoint Availability'' AVAILABILITY WARNING MEDIUM
                 (''Endpoint returned status '' @ string_of_nat (http_status response))
                 (Some (''HTTP '' @ string_of_nat (http_status response) @ '': ''
                        @ statusText response))]\<rparr>
             else no_findings))"

subsection \<open>checkSSLConfiguration\<close>

record tls_info =
  supportsTLS12 :: bool
  supportsTLS13 :: bool

text \<open>The source returns the same object for every host and port.\<close>

definition checkTLSConfiguration :: "string \<Rightarrow> nat \<Rightarrow> tls_info" where
  "checkTLSConfiguration host port = \<lparr>supportsTLS12 = True, supportsTLS13 = True\<rparr>"

text \<open>
  \<open>a <= b\<close> on two dates compares their time values, and is false when either is an
  Invalid Date; \<open>toISOString\<close> throws a \<open>RangeError\<close> on an Invalid Date.
\<close>

text \<open>
  \<open>certInfo.validFrom\<close> and \<open>certInfo.validTo\<close>: the certificate object has no property
  of either name, so both reads give \<open>undefined\<close>.
\<close>

definition certInfo_validFrom :: "peer_certificate \<Rightarrow> string option" where
  "certInfo_validFrom certInfo = None"

definition certInfo_validTo :: "peer_certificate \<Rightarrow> string option" where
  "certInfo_validTo certInfo = None"

text \<open>\<open>new Date(v)\<close>: an Invalid Date for \<open>undefined\<close>, the parsed date for a text.\<close>

fun new_Date :: "environment \<Rightarrow> string option \<Rightarrow> int option" where
  "new_Date env None = None"
| "new_Date env (Some s) = date_parse env s"

fun date_le :: "int option \<Rightarrow> int option \<Rightarrow> bool" where
  "date_le (Some a) (Some b) = (a \<le> b)"
| "date_le a b = False"

fun toISOString :: "environment \<Rightarrow> int option \<Rightarrow> js_error + string" where
  "toISOString env (Some t) = Inr (date_toISOString env t)"
| "toISOString env None = Inl (JsError ''RangeError'' ''Invalid time value'')"

definition certificate_validity ::
  "environment \<Rightarrow> MCPServer \<Rightarrow> int \<Rightarrow> int option \<Rightarrow> int option \<Rightarrow> js_error + findings" where
  "certificate_validity env server now notBefore notAfter =
     (if date_le notBefore (Some now) \<and> date_le (Some now) notAfter then
        Inr (no_findings\<lparr>checks := [mk_check ''ssl-certificate-valid''
          ''SSL Certificate Validity'' ENCRYPTION PASS HIGH
          ''SSL certificate is valid and not expired'' None]\<rparr>)
      else
        (case toISOString env notBefore of
           Inl error \<Rightarrow> Inl error
         | Inr from_text \<Rightarrow>
            (case toISOString env notAfter of
               Inl error \<Rightarrow> Inl error
             | Inr to_text \<Rightarrow>
                 Inr \<lparr>checks = [mk_check ''ssl-certificate-valid'' ''SSL Certificate Validity''
                        ENCRYPTION FAIL CRITICAL ''SSL certificate is expired or not yet valid''
                        (Some (''Valid from: '' @ from_text @ '', Valid to: '' @ to_text))],
                      recommendations = [],
                      vulnerabilities = [mk_vulnerability ''expired-certificate''
                        ''Expired SSL Certificate''
                        ''The SSL certificate has expired or is not yet valid'' CRITICAL
                        ENCRYPTION (endpoint server) ''Renew the SSL certificate'']\<rparr>)))"

definition expiry_warning :: "int \<Rightarrow> int option \<Rightarrow> findings \<Rightarrow> findings" where
  "expiry_warning now notAfter f =
     (let thirtyDaysFromNow = now + 30 * 24 * 60 * 60 * 1000
      in if date_le notAfter (Some thirtyDaysFromNow) then
           f\<lparr>recommendations := recommendations f @
              [mk_recommendation ''certificate-expiry-warning'' ''SSL Certificate Expiring Soon''
                 ''SSL certificate will expire within 30 days'' MEDIUM ENCRYPTION True
                 (Some [''Certificate renewal documentation''])]\<rparr>
         else f)"

definition tls_version_findings :: "MCPServer \<Rightarrow> tls_info \<Rightarrow> findings \<Rightarrow> findings" where
  "tls_version_findings server tlsInfo f =
     (if supportsTLS12 tlsInfo \<or> supportsTLS13 tlsInfo then
        f\<lparr>checks := checks f @ [mk_check ''tls-version'' ''TLS Version Support'' ENCRYPTION
             PASS MEDIUM ''Server supports modern TLS versions'' None]\<rparr>
      else
        f\<lparr>checks := checks f @ [mk_check ''tls-version'' ''TLS Version Support'' ENCRYPTION
             FAIL HIGH ''Server does not support modern TLS versions'' None],
          vulnerabilities := vulnerabilities f @ [mk_vulnerability ''outdated-tls''
             ''Outdated TLS Version'' ''Server only supports outdated TLS versions'' HIGH
             ENCRYPTION (endpoint server) ''Upgrade to support TLS 1.2 or higher'']\<rparr>)"

text \<open>
  The \<open>try\<close> block. \<open>parseInt(url.port) || 443\<close> is 443 for an empty port and for
  port 0. Each of its throwing steps (the URL parser, the TLS socket, \<open>toISOString\<close>
  inside the object literal of the failing check) comes before the first push.
\<close>

definition ssl_port :: "MCPServer \<Rightarrow> url \<Rightarrow> nat" where
  "ssl_port server u =
     (case url_port u of
        None \<Rightarrow> (if protocol server = Https then 443 else 443)
      | Some p \<Rightarrow> if p = 0 then (if protocol server = Https then 443 else 443) else p)"

definition ssl_try :: "environment \<Rightarrow> MCPServer \<Rightarrow> js_error + findings" where
  "ssl_try env server =
     (case parse_URL env (endpoint server) of
        Inl error \<Rightarrow> Inl error
      | Inr u \<Rightarrow>
         (let port = ssl_port server u
          in case tls_peer_certificate env (hostname u) port of
               Inl error \<Rightarrow> Inl error
             | Inr None \<Rightarrow> Inr no_findings
             | Inr (Some certInfo) \<Rightarrow>
                (let now = ssl_clock env;
                     notBefore = new_Date env (certInfo_validFrom certInfo);
                     notAfter = new_Date env (certInfo_validTo certInfo)
                 in case certificate_validity env server now notBefore notAfter of
                      Inl error \<Rightarrow> Inl error
                    | Inr f \<Rightarrow>
                        Inr (tls_version_findings server (checkTLSConfiguration (hostname u) port)
                               (expiry_warning now notAfter f)))))"

definition checkSSLConfiguration :: "environment \<Rightarrow> MCPServer \<Rightarrow> findings" where
  "checkSSLConfiguration env server =
     (if protocol server \<noteq> Https \<and> protocol server \<noteq> Wss then
        \<lparr>checks = [mk_check ''ssl-not-used'' ''SSL/TLS Usage'' ENCRYPTION FAIL HIGH
                     ''Server is not using SSL/TLS encryption'' None],
         recommendations = [],
         vulnerabilities = [mk_vulnerability ''unencrypted-communication''
                     ''Unencrypted Communication''
                     ''Server communication is not encrypted with SSL/TLS'' HIGH ENCRYPTION
                     (endpoint server) ''Enable HTTPS/WSS to encrypt communications'']\<rparr>
      else
        (case ssl_try env server of
           Inr f \<Rightarrow> f
         | Inl error \<Rightarrow>
             no_findings\<lparr>checks := [mk_check ''ssl-check-error'' ''SSL Configuration Check''
               ENCRYPTION ERROR MEDIUM ''Could not verify SSL configuration''
               (Some (error_message error))]\<rparr>))"

subsection \<open>checkAuthentication\<close>

definition hasAuthHeaders :: "http_response \<Rightarrow> bool" where
  "hasAuthHeaders response =
     list_ex (\<lambda>h. truthy (or_else (header response h) (header response (toLowerCase h))))
       [''www-authenticate'', ''authorization'']"

definition checkAuthentication :: "environment \<Rightarrow> MCPServer \<Rightarrow> findings" where
  "checkAuthentication env server =
     (case http_request env AuthenticationGet (endpoint server) of
        Inl error \<Rightarrow>
          no_findings\<lparr>checks := [mk_check ''authentication-check-error'' ''Authentication Check''
            AUTHENTICATION ERROR LOW ''Could not verify authentication configuration''
            (Some (error_message error))]\<rparr>
      | Inr response \<Rightarrow>
         (let f1 =
            (if http_status response = 401 \<or> http_status response = 403 then
               no_findings\<lparr>checks := [mk_check ''authentication-required''
                 ''Authentication Required'' AUTHENTICATION PASS HIGH
                 ''Server properly requires authentication'' None]\<rparr>
             else if http_status response = 200 then
               \<lparr>checks = [mk_check ''authentication-required'' ''Authentication Required''
                    AUTHENTICATION WARNING MEDIUM ''Server allows unauthenticated access'' None],
                recommendations = [mk_recommendation ''implement-authentication''
                    ''Implement Authentication''
                    ''Consider implementing authentication to secure the API'' MEDIUM
                    AUTHENTICATION False None],
                vulnerabilities = []\<rparr>
             else no_findings)
          in if hasAuthHeaders response then
               f1\<lparr>checks := checks f1 @ [mk_check ''auth-headers-present''
                 ''Authentication Headers'' AUTHENTICATION PASS LOW
                 ''Server includes proper authentication headers'' None]\<rparr>
             else f1))"

subsection \<open>checkHttpSecurity\<close>

definition securityHeaders :: "(string \<times> string) list" where
  "securityHeaders =
     [(''strict-transport-security'', ''HSTS''),
      (''x-content-type-options'', ''Content Type Options''),
      (''x-frame-options'', ''Frame Options''),
      (''x-xss-protection'', ''XSS Protection''),
      (''content-security-policy'', ''Content Security Policy'')]"

text \<open>The callback of \<open>Object.entries(securityHeaders).forEach\<close>.\<close>

definition security_header_entry :: "http_response \<Rightarrow> string \<times> string \<Rightarrow> findings \<Rightarrow> findings" where
  "security_header_entry response entry f =
     (case entry of (h, name) \<Rightarrow>
        if truthy (or_else (header response h) (header response (toLowerCase h))) then
          f\<lparr>checks := checks f @ [mk_check (''security-header-'' @ h) (name @ '' Header'')
               CONFIGURATION PASS LOW (name @ '' header is present'') None]\<rparr>
        else
          f\<lparr>checks := checks f @ [mk_check (''security-header-'' @ h) (name @ '' Header'')
               CONFIGURATION WARNING LOW (name @ '' header is missing'') None],
            recommendations := recommendations f @ [mk_recommendation (''add-'' @ h @ ''-header'')
               (''Add '' @ name @ '' Header'')
               (''Consider adding the '' @ h @ '' header for enhanced security'')
               LOW CONFIGURATION False None]\<rparr>)"

definition server_header_findings :: "http_response \<Rightarrow> findings \<Rightarrow> findings" where
  "server_header_findings response f =
     (let serverHeader = or_else (header response ''server'') (header response ''Server'')
      in case serverHeader of
           None \<Rightarrow> f
         | Some v \<Rightarrow>
             if v = [] then f
             else f\<lparr>checks := checks f @ [mk_check ''server-header-disclosure''
                      ''Server Information Disclosure'' CONFIGURATION WARNING LOW
                      ''Server header reveals server information'' (Some (''Server: '' @ v))],
                    recommendations := recommendations f @ [mk_recommendation
                      ''hide-server-header'' ''Hide Server Header''
                      ''Consider hiding or minimizing server header information'' LOW
                      CONFIGURATION False None]\<rparr>)"

definition security_header_findings :: "http_response \<Rightarrow> findings" where
  "security_header_findings response =
     fold (security_header_entry response) securityHeaders no_findings"

definition checkHttpSecurity :: "environment \<Rightarrow> MCPServer \<Rightarrow> findings" where
  "checkHttpSecurity env server =
     (if protocol server = Ws \<or> protocol server = Wss then no_findings
      else
        (case http_request env HttpSecurityGet (endpoint server) of
           Inl error \<Rightarrow>
             no_findings\<lparr>checks := [mk_check ''http-security-check-error''
               ''HTTP Security Check'' CONFIGURATION ERROR LOW
               ''Could not verify HTTP security configuration'' (Some (error_message error))]\<rparr>
         | Inr response \<Rightarrow>
             server_header_findings response (security_header_findings response)))"

subsection \<open>checkAPIEndpoints\<close>

text \<open>
  The six patterns of \<open>containsSensitiveInfo\<close>, all with the flag \<open>i\<close>, on the text
  lowered to lower case. \<open>anywhere\<close> lets a pattern start at any position; \<open>after_gap\<close> is
  \<open>.*\<close> before the rest of a pattern, where \<open>.\<close> matches no line terminator.
\<close>

fun anywhere :: "(string \<Rightarrow> bool) \<Rightarrow> string \<Rightarrow> bool" where
  "anywhere P [] = P []"
| "anywhere P (c # cs) = (if P (c # cs) then True else anywhere P cs)"

definition is_line_terminator :: "char \<Rightarrow> bool" where
  "is_line_terminator c = (c = CHR 0x0A \<or> c = CHR 0x0D)"

fun after_gap :: "(string \<Rightarrow> bool) \<Rightarrow> string \<Rightarrow> bool" where
  "after_gap P [] = P []"
| "after_gap P (c # cs) =
     (if P (c # cs) then True else if is_line_terminator c then False else after_gap P cs)"

definition is_alnum :: "char \<Rightarrow> bool" where
  "is_alnum c = (c \<in> set (lower_letters @ upper_letters @ ''0123456789''))"

definition alnum_run :: "nat \<Rightarrow> string \<Rightarrow> bool" where
  "alnum_run n s = (length (takeWhile is_alnum s) \<ge> n)"

definition sensitivePatterns :: "(string \<Rightarrow> bool) list" where
  "sensitivePatterns =
     [anywhere (startsWith ''password''),
      anywhere (startsWith ''secret''),
      anywhere (startsWith ''token''),
      anywhere (\<lambda>s. startsWith ''key'' s \<and>
         after_gap (\<lambda>t. startsWith ''='' t \<and> after_gap (alnum_run 20) (drop 1 t)) (drop 3 s)),
      anywhere (\<lambda>s. startsWith ''api'' s \<and> after_gap (startsWith ''key'') (drop 3 s)),
      anywhere (\<lambda>s. startsWith ''private'' s \<and> after_gap (startsWith ''key'') (drop 7 s))]"

text \<open>
  A body that is not a string is first turned into text by \<open>JSON.stringify\<close>; \<open>JsonData\<close>
  carries that text.
\<close>

definition containsSensitiveInfo :: "response_data \<Rightarrow> bool" where
  "containsSensitiveInfo d =
     (let text = (case d of StringData s \<Rightarrow> s | JsonData s \<Rightarrow> s)
      in list_ex (\<lambda>pattern. pattern (toLowerCase text)) sensitivePatterns)"

definition api_endpoints :: "string list" where
  "api_endpoints =
     [''/metadata'', ''/info'', ''/health'', ''/status'', ''/api'', ''/docs'', ''/swagger'',
      ''/openapi'']"

text \<open>The body of the loop over the paths; a failed request is ignored.\<close>

definition api_endpoint_step :: "environment \<Rightarrow> string \<Rightarrow> string \<Rightarrow> findings \<Rightarrow> findings" where
  "api_endpoint_step env baseUrl ep f =
     (case http_request env ApiEndpointGet (baseUrl @ ep) of
        Inl error \<Rightarrow> f
      | Inr response \<Rightarrow>
          if http_status response = 200 then
            (let f1 = f\<lparr>checks := checks f @ [mk_check
                        (''endpoint-'' @ replace_first (CHR ''/'') ''-'' ep) (''Endpoint '' @ ep)
                        CONFIGURATION PASS INFO (''Endpoint '' @ ep @ '' is accessible'') None]\<rparr>
             in if containsSensitiveInfo (resp_data response) then
                  f1\<lparr>vulnerabilities := vulnerabilities f1 @ [mk_vulnerability
                        (''sensitive-info-'' @ ep) ''Sensitive Information Exposure''
                        (''Endpoint '' @ ep @ '' may expose sensitive information'') MEDIUM
                        DATA_PROTECTION (baseUrl @ ep) ''Review and sanitize endpoint responses'']\<rparr>
                else f1)
          else f)"

text \<open>
  Nothing in the outer \<open>try\<close> block throws outside the inner one, so the check
  \<open>api-endpoints-check-error\<close> of its \<open>catch\<close> clause is never pushed.
\<close>

definition checkAPIEndpoints :: "environment \<Rightarrow> MCPServer \<Rightarrow> findings" where
  "checkAPIEndpoints env server =
     (let baseUrl = strip_trailing_slash (endpoint server)
      in fold (api_endpoint_step env baseUrl) api_endpoints no_findings)"

subsection \<open>checkRateLimit, checkCORSConfiguration, checkSecurityHeaders\<close>

definition checkRateLimit :: "MCPServer \<Rightarrow> findings" where
  "checkRateLimit server =
     (if (case metadata server of None \<Rightarrow> False | Some m \<Rightarrow> rateLimit m \<noteq> None) then
        no_findings\<lparr>checks := [mk_check ''rate-limit-configured'' ''Rate Limiting'' AVAILABILITY
          PASS MEDIUM ''Rate limiting is configured'' None]\<rparr>
      else
        \<lparr>checks = [mk_check ''rate-limit-configured'' ''Rate Limiting'' AVAILABILITY
             WARNING LOW ''Rate limiting configuration not detected'' None],
         recommendations = [mk_recommendation ''implement-rate-limiting''
             ''Implement Rate Limiting'' ''Consider implementing rate limiting to prevent abuse''
             LOW AVAILABILITY False None],
         vulnerabilities = []\<rparr>)"

definition checkCORSConfiguration :: "environment \<Rightarrow> MCPServer \<Rightarrow> findings" where
  "checkCORSConfiguration env server =
     (if protocol server = Ws \<or> protocol server = Wss then no_findings
      else
        (case http_request env CorsOptions (endpoint server) of
           Inl error \<Rightarrow>
             no_findings\<lparr>checks := [mk_check ''cors-check-error'' ''CORS Configuration Check''
               CONFIGURATION ERROR LOW ''Could not verify CORS configuration''
               (Some (error_message error))]\<rparr>
         | Inr response \<Rightarrow>
            (let corsHeader = header response ''access-control-allow-origin''
             in if corsHeader = Some ''*'' then
                  \<lparr>checks = [mk_check ''cors-wildcard'' ''CORS Configuration'' CONFIGURATION
                       WARNING MEDIUM ''CORS allows all origins (*)''
                       (Some ''Access-Control-Allow-Origin: *'')],
                   recommendations = [mk_recommendation ''restrict-cors-origins''
                       ''Restrict CORS Origins''
                       ''Consider restricting CORS to specific trusted origins'' MEDIUM
                       CONFIGURATION False None],
                   vulnerabilities = []\<rparr>
                else if truthy corsHeader then
                  no_findings\<lparr>checks := [mk_check ''cors-configured'' ''CORS Configuration''
                    CONFIGURATION PASS LOW
                    ''CORS is properly configured with specific origins'' None]\<rparr>
                else no_findings)))"

definition checkSecurityHeaders :: "MCPServer \<Rightarrow> findings" where
  "checkSecurityHeaders server = no_findings"

section \<open>The probe runner and the analyzer (SecurityAnalyzer.analyzeServer)\<close>

text \<open>
  The eight promises handed to \<open>Promise.allSettled\<close>, in the order of the source. Every
  probe catches what its requests throw, so each promise is fulfilled.
\<close>

definition runSecurityChecks :: "environment \<Rightarrow> MCPServer \<Rightarrow> findings settled list" where
  "runSecurityChecks env server =
     [Fulfilled (checkEndpointAvailability env server),
      Fulfilled (checkSSLConfiguration env server),
      Fulfilled (checkAuthentication env server),
      Fulfilled (checkHttpSecurity env server),
      Fulfilled (checkAPIEndpoints env server),
      Fulfilled (checkRateLimit server),
      Fulfilled (checkCORSConfiguration env server),
      Fulfilled (checkSecurityHeaders server)]"

text \<open>
  The callback of \<open>checkResults.forEach((result, index) => ...)\<close>, on the three arrays
  and the console.
\<close>

fun process_result :: "nat \<times> findings settled \<Rightarrow> findings \<times> log_entry list \<Rightarrow> findings \<times> log_entry list" where
  "process_result (index, Fulfilled v) (f, console) =
     (\<lparr>checks = checks f @ checks v,
       recommendations = recommendations f @ recommendations v,
       vulnerabilities = vulnerabilities f @ vulnerabilities v\<rparr>, console)"
| "process_result (index, Rejected reason) (f, console) =
     (f, console @ [LogCheckFailed index reason])"

definition processCheckResults :: "findings settled list \<Rightarrow> findings \<times> log_entry list" where
  "processCheckResults checkResults =
     fold process_result (enumerate 0 checkResults) (no_findings, [])"

text \<open>
  The \<open>try\<close> block of \<open>analyzeServer\<close> once the eight promises have settled, and the
  \<open>catch\<close> clause that wraps whatever it throws in a \<open>SecurityAnalysisError\<close>.
\<close>

definition analysis_try ::
  "int \<Rightarrow> MCPServer \<Rightarrow> findings settled list
     \<Rightarrow> log_entry list \<times> (js_error + SecurityAnalysisResult)" where
  "analysis_try ts server checkResults =
     (case processCheckResults checkResults of
        (f, console) \<Rightarrow>
          (console,
           Inr \<lparr>checks = checks f, recommendations = recommendations f,
                vulnerabilities = vulnerabilities f,
                serverId = server_id server, serverName = server_name server,
                result_endpoint = endpoint server, timestamp = ts,
                overallScore = calculateSecurityScore (checks f)\<rparr>))"

definition analyzeServer_settled ::
  "int \<Rightarrow> MCPServer \<Rightarrow> findings settled list
     \<Rightarrow> log_entry list \<times> (SecurityAnalysisError + SecurityAnalysisResult)" where
  "analyzeServer_settled ts server checkResults =
     (case analysis_try ts server checkResults of
        (console, Inr result) \<Rightarrow> (console, Inr result)
      | (console, Inl error) \<Rightarrow>
          (console,
           Inl \<lparr>error_text = ''Failed to analyze server '' @ server_name server @ '': ''
                               @ error_toString error,
                error_code = ''SECURITY_ANALYSIS_ERROR'',
                error_server = server, error_cause = error\<rparr>))"

definition analyzeServer ::
  "environment \<Rightarrow> MCPServer \<Rightarrow> log_entry list \<times> (SecurityAnalysisError + SecurityAnalysisResult)" where
  "analyzeServer env server =
     analyzeServer_settled (analysis_clock env) server (runSecurityChecks env server)"

section \<open>The audit orchestrator (MCPSecurityAuditor.performAudit)\<close>

text \<open>
  The analyses run concurrently, and each pushes its result when it finishes. The
  schedule picks, step by step, which of the pending analyses finishes next (the number
  is taken modulo the number of those pending); when the schedule is used up the rest
  finish in the order of the input. Every order of finishing is the order of some
  schedule.
\<close>

fun finish_order :: "nat list \<Rightarrow> 'a list \<Rightarrow> 'a list" where
  "finish_order [] pending = pending"
| "finish_order (k # ks) pending =
     (if pending = [] then []
      else let i = k mod length pending
           in pending ! i # finish_order ks (take i pending @ drop (Suc i) pending))"

text \<open>
  The callback mapped over the servers. Up to its first \<open>await\<close> it runs at once, so
  the lines \<open>Analyzing ...\<close> are written in the order of the input before any analysis
  finishes; \<open>analyze_one\<close> is the rest of it, run when the analysis of the server
  finishes: a result is pushed onto \<open>analysisResults\<close>, a thrown error is written to the
  console.
\<close>

definition analyze_one ::
  "environment \<Rightarrow> MCPServer \<Rightarrow> log_entry list \<times> SecurityAnalysisResult list
     \<Rightarrow> log_entry list \<times> SecurityAnalysisResult list" where
  "analyze_one env server acc =
     (case acc of (console, analysisResults) \<Rightarrow>
        (case analyzeServer env server of
           (lg, Inr result) \<Rightarrow> (console @ lg, analysisResults @ [result])
         | (lg, Inl error) \<Rightarrow>
             (console @ lg @ [LogAnalyzeFailed (server_name server) error],
              analysisResults)))"

text \<open>
  Discovery is outside the analysed core: its outcome is an argument, the discovery
  results or the error \<open>discoverServers\<close> rejects with, which \<open>performAudit\<close> logs and
  throws again.
\<close>

definition performAudit ::
  "environment \<Rightarrow> js_error + DiscoveryResult list
     \<Rightarrow> log_entry list \<times> (js_error + SecurityAnalysisResult list)" where
  "performAudit env discovery =
     (case discovery of
        Inl error \<Rightarrow> ([LogDiscoveryStart, LogAuditFailed error], Inl error)
      | Inr discoveryResults \<Rightarrow>
         (let allServers = concat (map servers discoveryResults)
          in if length allServers = 0 then
               ([LogDiscoveryStart, LogDiscovered (length allServers), LogNoServers], Inr [])
             else
               (case fold (analyze_one env) (finish_order (finish_schedule env) allServers)
                       ([LogDiscoveryStart, LogDiscovered (length allServers), LogAnalysisStart]
                          @ map (\<lambda>server. LogAnalyzing (server_name server) (endpoint server))
                              allServers, [])
                of (console, analysisResults) \<Rightarrow>
                     (console @ [LogCompleted (length analysisResults)], Inr analysisResults))))"

section \<open>Notions used in the statements\<close>

text \<open>The values of the fulfilled promises, and the warnings for the rejected ones.\<close>

fun fulfilled_values :: "'a settled list \<Rightarrow> 'a list" where
  "fulfilled_values [] = []"
| "fulfilled_values (Fulfilled v # rs) = v # fulfilled_values rs"
| "fulfilled_values (Rejected reason # rs) = fulfilled_values rs"

fun rejections :: "nat \<Rightarrow> 'a settled list \<Rightarrow> log_entry list" where
  "rejections n [] = []"
| "rejections n (Fulfilled v # rs) = rejections (Suc n) rs"
| "rejections n (Rejected reason # rs) = LogCheckFailed n reason # rejections (Suc n) rs"

definition merged :: "findings list \<Rightarrow> findings" where
  "merged fs =
     \<lparr>checks = concat (map checks fs),
      recommendations = concat (map recommendations fs),
      vulnerabilities = concat (map vulnerabilities fs)\<rparr>"

fun is_analyze_failure :: "log_entry \<Rightarrow> bool" where
  "is_analyze_failure (LogAnalyzeFailed name error) = True"
| "is_analyze_failure e = False"

text \<open>The requests the probes send for one server: the call site and the URL.\<close>

definition probe_requests :: "MCPServer \<Rightarrow> (call_site \<times> string) list" where
  "probe_requests server =
     [(AvailabilityGet, endpoint server), (AuthenticationGet, endpoint server),
      (HttpSecurityGet, endpoint server), (CorsOptions, endpoint server)]
     @ map (\<lambda>ep. (ApiEndpointGet, strip_trailing_slash (endpoint server) @ ep)) api_endpoints"

definition request_fails :: "environment \<Rightarrow> call_site \<times> string \<Rightarrow> bool" where
  "request_fails env rq = isl (http_request env (fst rq) (snd rq))"


section \<open>Concrete servers and environments\<close>

definition example_server :: "string \<Rightarrow> string \<Rightarrow> Protocol \<Rightarrow> MCPServer" where
  "example_server i e p =
     \<lparr>server_id = i, server_name = i, version = ''1.0.0'', description = None, endpoint = e,
      protocol = p, owner = None, lastSeen = 0, metadata = None\<rparr>"

definition refused :: js_error where
  "refused = JsError ''Error'' ''connect ECONNREFUSED''"

text \<open>No listener anywhere: every request, handshake and socket fails.\<close>

definition offline_env :: environment where
  "offline_env =
     \<lparr>analysis_clock = 1700000000000, ssl_clock = 1700000000000,
      http_request = (\<lambda>site u. Inl refused),
      websocket_open = (\<lambda>u. Some refused),
      parse_URL = (\<lambda>u. Inl (JsError ''TypeError'' ''Invalid URL'')),
      tls_peer_certificate = (\<lambda>h p. Inl refused),
      date_parse = (\<lambda>s. None),
      date_toISOString = (\<lambda>t. ''date''),
      finish_schedule = [],
      peer_tls_versions = (\<lambda>h. [])\<rparr>"

text \<open>Web servers that answer each URL as \<open>answer\<close> says; no TLS.\<close>

definition web_env :: "(string \<Rightarrow> js_error + http_response) \<Rightarrow> environment" where
  "web_env answer = offline_env\<lparr>http_request := (\<lambda>site u. answer u)\<rparr>"

definition plain_response :: "nat \<Rightarrow> string \<Rightarrow> (string \<times> string) list \<Rightarrow> http_response" where
  "plain_response st txt hs =
     \<lparr>http_status = st, statusText = txt, headers = hs, resp_data = StringData []\<rparr>"

text \<open>The dates of the examples, as \<open>new Date\<close> reads their texts.\<close>

definition example_dates :: "string \<Rightarrow> int option" where
  "example_dates s =
     map_of [(''Sep 13 12:26:40 2020 GMT'', 1600000000000),
             (''Nov 13 22:13:20 2023 GMT'', 1699913600000),
             (''Jan 15 08:00:00 2027 GMT'', 1800000000000)] s"

text \<open>
  A TLS host on 14 November 2023, 22:13:20 GMT, that presents a certificate valid from
  13 September 2020 until \<open>until\<close> and offers the protocol versions \<open>versions\<close>; its web
  server does not answer.
\<close>

definition tls_env :: "string \<Rightarrow> tls_version list \<Rightarrow> environment" where
  "tls_env until versions =
     offline_env\<lparr>ssl_clock := 1700000000000,
       parse_URL := (\<lambda>u. Inr \<lparr>hostname = ''tls.example'', url_port = None\<rparr>),
       tls_peer_certificate := (\<lambda>h p. Inr (Some
          \<lparr>valid_from = Some ''Sep 13 12:26:40 2020 GMT'', valid_to = Some until\<rparr>)),
       date_parse := example_dates,
       peer_tls_versions := (\<lambda>h. versions)\<rparr>"

definition tls_server :: MCPServer where
  "tls_server = example_server ''tls'' ''https://tls.example'' Https"

text \<open>The offline network, where the second of the analyses is the first to finish.\<close>

definition racing_env :: environment where
  "racing_env = offline_env\<lparr>finish_schedule := [1]\<rparr>"

text \<open>Three discovered servers; the second has the empty string as its endpoint.\<close>

definition three_servers :: "DiscoveryResult list" where
  "three_servers =
     [\<lparr>source = ''local'',
       servers = [example_server ''alpha'' ''http://alpha.example'' Http,
                  example_server ''broken'' [] Http,
                  example_server ''gamma'' ''https://gamma.example'' Https],
       errors = [], duration = 0\<rparr>]"

section \<open>Properties of the Scorer\<close>

lemma getSeverityWeight_spec: "getSeverityWeight sev = spec_weight sev"
  by (cases sev) (simp_all add: spec_weight_def)

lemma fold_score_check:
  "fold score_check cs s =
     s\<lparr>totalScore := totalScore s + spec_totalScore cs,
       maxScore := maxScore s + spec_maxScore cs\<rparr>"
proof (induction cs arbitrary: s)
  case Nil
  show ?case by (simp add: spec_totalScore_def spec_maxScore_def)
next
  case (Cons c cs)
  have step: "score_check c s =
      s\<lparr>totalScore := totalScore s + spec_gain c,
        maxScore := maxScore s + spec_weight (check_severity c)\<rparr>"
    by (simp add: score_check_def spec_gain_def getSeverityWeight_spec Let_def)
  show ?case
    by (simp add: Cons.IH step spec_totalScore_def spec_maxScore_def add.assoc)
qed

lemma scorer_final_state:
  "fold score_check cs \<lparr>st_checks = cs, totalScore = 0, maxScore = 0\<rparr> =
     \<lparr>st_checks = cs, totalScore = spec_totalScore cs, maxScore = spec_maxScore cs\<rparr>"
  by (simp add: fold_score_check)

lemma percentage_eq: "(t / m) * 100 = 100 * t / (m :: rat)"
  by simp

lemma grade_of_final_state:
  "grade_of_state \<lparr>st_checks = cs, totalScore = spec_totalScore cs, maxScore = spec_maxScore cs\<rparr>
     = spec_grade cs"
  unfolding grade_of_state_def spec_grade_def percentage_eq by simp

lemma calculateSecurityScore_st_eq:
  "calculateSecurityScore_st cs = (spec_grade cs, cs)"
  by (simp add: calculateSecurityScore_st_def scorer_final_state grade_of_final_state)

lemma calculateSecurityScore_spec: "calculateSecurityScore cs = spec_grade cs"
  by (simp add: calculateSecurityScore_def calculateSecurityScore_st_eq)

text \<open>
  C1. For every list of checks the Scorer returns the grade of the specified algorithm:
  weights critical 10, high 8, medium 5, low 2, info 1 and any other severity 1; every
  weight counts towards maxScore, the full weight towards totalScore for a pass, half of
  it for a warning and nothing otherwise; FAIR when maxScore is zero, and otherwise the
  percentage 100 * totalScore / maxScore graded with thresholds closed below at 90, 80,
  60 and 40.
\<close>

theorem scorer_computes_specified_grade:
  "calculateSecurityScore cs = spec_grade cs"
  by (rule calculateSecurityScore_spec)

text \<open>The thresholds are closed below: exactly 90 is EXCELLENT, exactly 60 is FAIR.\<close>

lemma grade_at_exactly_90:
  "calculateSecurityScore
     [mk_check ''a'' ''a'' NETWORK PASS HIGH [] None, mk_check ''b'' ''b'' NETWORK PASS CRITICAL [] None,
      mk_check ''c'' ''c'' NETWORK FAIL LOW [] None] = EXCELLENT"
  by (simp add: calculateSecurityScore_spec spec_grade_def spec_maxScore_def spec_totalScore_def
      spec_gain_def spec_weight_def mk_check_def)

lemma grade_at_exactly_60:
  "calculateSecurityScore
     [mk_check ''a'' ''a'' NETWORK PASS MEDIUM [] None, mk_check ''b'' ''b'' NETWORK WARNING LOW [] None,
      mk_check ''c'' ''c'' NETWORK FAIL LOW [] None, mk_check ''d'' ''d'' NETWORK ERROR INFO [] None]
     = FAIR"
  by (simp add: calculateSecurityScore_spec spec_grade_def spec_maxScore_def spec_totalScore_def
      spec_gain_def spec_weight_def mk_check_def)

lemma grade_of_no_checks: "calculateSecurityScore [] = FAIR"
  by (simp add: calculateSecurityScore_spec spec_grade_def spec_maxScore_def)

text \<open>
  C8. The Scorer is a function of the checks alone and leaves them as they were: the
  array after a run is the array before it, and a second run on it gives the same grade.
\<close>

theorem scorer_pure_and_repeatable:
  "snd (calculateSecurityScore_st cs) = cs \<and>
   fst (calculateSecurityScore_st (snd (calculateSecurityScore_st cs))) =
     fst (calculateSecurityScore_st cs)"
  by (simp add: calculateSecurityScore_st_eq)

section \<open>Properties of the probe runner\<close>

lemma fold_process_result:
  "fold process_result (enumerate n rs) (f, console) =
     (\<lparr>checks = checks f @ checks (merged (fulfilled_values rs)),
       recommendations = recommendations f @ recommendations (merged (fulfilled_values rs)),
       vulnerabilities = vulnerabilities f @ vulnerabilities (merged (fulfilled_values rs))\<rparr>,
      console @ rejections n rs)"
proof (induction rs arbitrary: n f console)
  case Nil
  show ?case by (simp add: merged_def)
next
  case (Cons r rs)
  show ?case
  proof (cases r)
    case (Fulfilled v)
    then show ?thesis by (simp add: Cons.IH merged_def)
  next
    case (Rejected reason)
    then show ?thesis by (simp add: Cons.IH merged_def)
  qed
qed

lemma processCheckResults_eq:
  "processCheckResults rs = (merged (fulfilled_values rs), rejections 0 rs)"
  by (simp add: processCheckResults_def fold_process_result no_findings_def merged_def)

lemma analyzeServer_settled_eq:
  "analyzeServer_settled ts server rs =
     (rejections 0 rs,
      Inr \<lparr>checks = checks (merged (fulfilled_values rs)),
           recommendations = recommendations (merged (fulfilled_values rs)),
           vulnerabilities = vulnerabilities (merged (fulfilled_values rs)),
           serverId = server_id server, serverName = server_name server,
           result_endpoint = endpoint server, timestamp = ts,
           overallScore = calculateSecurityScore (checks (merged (fulfilled_values rs)))\<rparr>)"
  by (simp add: analyzeServer_settled_def analysis_try_def processCheckResults_eq)

lemma fulfilled_values_append:
  "fulfilled_values (xs @ ys) = fulfilled_values xs @ fulfilled_values ys"
  by (induction xs rule: fulfilled_values.induct) simp_all

lemma rejections_append:
  "rejections n (xs @ ys) = rejections n xs @ rejections (n + length xs) ys"
  by (induction n xs rule: rejections.induct) simp_all

text \<open>
  C3. Whatever the eight probes settle to, when one of them is rejected the runner
  still returns a result with its three collections and does not reject: the rejected
  probe is written to the console with its index and reason and adds no finding, and the
  findings are those of the other probes, in their order, exactly as if the rejected
  probe had not been run.
\<close>

theorem runner_isolates_rejected_probe:
  "analyzeServer_settled ts server (pre @ Rejected reason # post) =
     (rejections 0 pre @ LogCheckFailed (length pre) reason # rejections (Suc (length pre)) post,
      Inr \<lparr>checks = concat (map checks (fulfilled_values (pre @ post))),
           recommendations = concat (map recommendations (fulfilled_values (pre @ post))),
           vulnerabilities = concat (map vulnerabilities (fulfilled_values (pre @ post))),
           serverId = server_id server, serverName = server_name server,
           result_endpoint = endpoint server, timestamp = ts,
           overallScore =
             calculateSecurityScore (concat (map checks (fulfilled_values (pre @ post))))\<rparr>)
   \<and> snd (analyzeServer_settled ts server (pre @ Rejected reason # post)) =
       snd (analyzeServer_settled ts server (pre @ post))"
  by (simp add: analyzeServer_settled_eq fulfilled_values_append rejections_append merged_def)

section \<open>Properties of the analyzer and the audit orchestrator\<close>

lemma fulfilled_runSecurityChecks:
  "fulfilled_values (runSecurityChecks env server) =
     [checkEndpointAvailability env server, checkSSLConfiguration env server,
      checkAuthentication env server, checkHttpSecurity env server,
      checkAPIEndpoints env server, checkRateLimit server,
      checkCORSConfiguration env server, checkSecurityHeaders server]"
  by (simp add: runSecurityChecks_def)

lemma rejections_runSecurityChecks: "rejections n (runSecurityChecks env server) = []"
  by (simp add: runSecurityChecks_def)

lemma analyzeServer_eq:
  "analyzeServer env server =
     ([], Inr \<lparr>checks = checks (merged (fulfilled_values (runSecurityChecks env server))),
           recommendations = recommendations (merged (fulfilled_values (runSecurityChecks env server))),
           vulnerabilities = vulnerabilities (merged (fulfilled_values (runSecurityChecks env server))),
           serverId = server_id server, serverName = server_name server,
           result_endpoint = endpoint server, timestamp = analysis_clock env,
           overallScore = calculateSecurityScore
             (checks (merged (fulfilled_values (runSecurityChecks env server))))\<rparr>)"
  by (simp add: analyzeServer_def analyzeServer_settled_eq rejections_runSecurityChecks)

lemma mset_finish_order: "mset (finish_order sched xs) = mset xs"
proof (induction sched arbitrary: xs)
  case Nil
  show ?case by simp
next
  case (Cons k ks)
  show ?case
  proof (cases "xs = []")
    case True
    then show ?thesis by simp
  next
    case False
    let ?i = "k mod length xs"
    have i: "?i < length xs" using False by simp
    have "mset xs = mset (take ?i xs @ xs ! ?i # drop (Suc ?i) xs)"
      using id_take_nth_drop [OF i] by simp
    then show ?thesis
      using False by (simp add: Cons.IH Let_def)
  qed
qed

lemma length_finish_order: "length (finish_order sched xs) = length xs"
  using mset_finish_order [of sched xs] by (metis size_mset)

lemma fold_analyze_one:
  "fold (analyze_one env) ss (console, rs) =
     (console, rs @ map (\<lambda>s. projr (snd (analyzeServer env s))) ss)"
  by (induction ss arbitrary: console rs) (simp_all add: analyze_one_def analyzeServer_eq)

lemma performAudit_eq:
  "performAudit env (Inr ds) =
     (if concat (map servers ds) = []
      then ([LogDiscoveryStart, LogDiscovered 0, LogNoServers], Inr [])
      else ([LogDiscoveryStart, LogDiscovered (length (concat (map servers ds))), LogAnalysisStart]
              @ map (\<lambda>s. LogAnalyzing (server_name s) (endpoint s)) (concat (map servers ds))
              @ [LogCompleted (length (concat (map servers ds)))],
            Inr (map (\<lambda>s. projr (snd (analyzeServer env s)))
                   (finish_order (finish_schedule env) (concat (map servers ds))))))"
  by (simp add: performAudit_def fold_analyze_one length_finish_order Let_def)

lemma serverId_analyzeServer: "serverId (projr (snd (analyzeServer env s))) = server_id s"
  by (simp add: analyzeServer_eq)

lemma result_endpoint_analyzeServer:
  "result_endpoint (projr (snd (analyzeServer env s))) = endpoint s"
  by (simp add: analyzeServer_eq)

text \<open>
  C2, as the code has it. For every collection of discovered servers, every behaviour
  of the network and every order in which the analyses finish, the orchestrator returns,
  without raising, one result for each server, for a server with the empty endpoint too:
  the results are those of the servers of the input, each once, in the order of
  finishing; no analysis fails, and no analysis failure is written to the console.
\<close>

theorem audit_returns_one_result_per_server:
  "map_sum error_message (\<lambda>rs. mset (map serverId rs)) (snd (performAudit env (Inr ds)))
     = Inr (mset (map server_id (concat (map servers ds))))
   \<and> map_sum error_message (\<lambda>rs. mset (map result_endpoint rs)) (snd (performAudit env (Inr ds)))
     = Inr (mset (map endpoint (concat (map servers ds))))
   \<and> map_sum error_message length (snd (performAudit env (Inr ds)))
     = Inr (length (concat (map servers ds)))
   \<and> filter is_analyze_failure (fst (performAudit env (Inr ds))) = []"
proof (cases "concat (map servers ds) = []")
  case True
  then show ?thesis by (simp add: performAudit_eq)
next
  case False
  let ?xs = "concat (map servers ds)"
  let ?done = "finish_order (finish_schedule env) ?xs"
  let ?g = "\<lambda>s. projr (snd (analyzeServer env s))"
  have res: "snd (performAudit env (Inr ds)) = Inr (map ?g ?done)"
    using False by (auto simp: performAudit_eq)
  have con: "fst (performAudit env (Inr ds)) =
      [LogDiscoveryStart, LogDiscovered (length ?xs), LogAnalysisStart]
        @ map (\<lambda>s. LogAnalyzing (server_name s) (endpoint s)) ?xs @ [LogCompleted (length ?xs)]"
    using False by (auto simp: performAudit_eq)
  have ids: "mset (map serverId (map ?g ?done)) = mset (map server_id ?xs)"
    by (simp add: comp_def serverId_analyzeServer mset_finish_order)
  have eps: "mset (map result_endpoint (map ?g ?done)) = mset (map endpoint ?xs)"
    by (simp add: comp_def result_endpoint_analyzeServer mset_finish_order)
  have len: "length (map ?g ?done) = length ?xs"
    by (simp add: length_finish_order)
  have quiet: "filter is_analyze_failure (fst (performAudit env (Inr ds))) = []"
    unfolding con by (simp add: filter_empty_conv)
  show ?thesis
    unfolding res map_sum.simps ids eps len using quiet by simp
qed

text \<open>
  C2, as the claim has it, fails: of three servers, the second with the empty string as
  its endpoint and its analysis the first to finish, three results come back, the one
  with the empty endpoint among them, and no failure is written to the console.
\<close>

theorem audit_keeps_server_with_empty_endpoint:
  "map_sum error_message length (snd (performAudit racing_env (Inr three_servers))) = Inr 3
   \<and> map_sum error_message length (snd (performAudit racing_env (Inr three_servers))) \<noteq> Inr 2
   \<and> map_sum error_message (\<lambda>rs. mset (map result_endpoint rs))
        (snd (performAudit racing_env (Inr three_servers)))
     = Inr (mset [''http://alpha.example'', [], ''https://gamma.example''])
   \<and> filter is_analyze_failure (fst (performAudit racing_env (Inr three_servers))) = []"
proof -
  let ?xs = "concat (map servers three_servers)"
  let ?done = "finish_order (finish_schedule racing_env) ?xs"
  let ?g = "\<lambda>s. projr (snd (analyzeServer racing_env s))"
  have xs: "?xs = [example_server ''alpha'' ''http://alpha.example'' Http,
                  example_server ''broken'' [] Http,
                  example_server ''gamma'' ''https://gamma.example'' Https]"
    by (simp add: three_servers_def)
  have ne: "?xs \<noteq> []"
    by (simp add: xs)
  have res: "snd (performAudit racing_env (Inr three_servers)) = Inr (map ?g ?done)"
    using ne by (auto simp: performAudit_eq)
  have con: "fst (performAudit racing_env (Inr three_servers)) =
      [LogDiscoveryStart, LogDiscovered (length ?xs), LogAnalysisStart]
        @ map (\<lambda>s. LogAnalyzing (server_name s) (endpoint s)) ?xs @ [LogCompleted (length ?xs)]"
    using ne by (auto simp: performAudit_eq)
  have "mset (map result_endpoint (map ?g ?done)) = mset (map endpoint ?xs)"
    by (simp add: comp_def result_endpoint_analyzeServer mset_finish_order)
  also have "map endpoint ?xs = [''http://alpha.example'', [], ''https://gamma.example'']"
    by (simp add: xs example_server_def)
  finally have eps: "mset (map result_endpoint (map ?g ?done))
      = mset [''http://alpha.example'', [], ''https://gamma.example'']" .
  have len: "length (map ?g ?done) = 3"
    by (simp add: length_finish_order xs)
  have quiet: "filter is_analyze_failure (fst (performAudit racing_env (Inr three_servers))) = []"
    unfolding con by (simp add: filter_empty_conv)
  show ?thesis
    unfolding res map_sum.simps eps len using quiet by simp
qed

lemma api_steps_all_fail:
  "list_all (\<lambda>ep. isl (http_request env ApiEndpointGet (base @ ep))) eps
     \<Longrightarrow> fold (api_endpoint_step env base) eps f = f"
  by (induction eps arbitrary: f) (auto simp: api_endpoint_step_def isl_def)

text \<open>
  C6. For a server with protocol http all of whose requests fail: the reachability probe
  gives one check, failed and critical, and the vulnerability endpoint-unreachable; the
  TLS probe gives one check, the failed 'SSL/TLS Usage', and the vulnerability
  unencrypted-communication; the analysis returns, and its grade is CRITICAL.
\<close>

theorem unreachable_http_server_is_graded_critical:
  assumes http: "protocol server = Http"
    and fails: "list_all (request_fails env) (probe_requests server)"
  shows "map status (checks (checkEndpointAvailability env server)) = [FAIL]
       \<and> map check_severity (checks (checkEndpointAvailability env server)) = [CRITICAL]
       \<and> map vuln_id (vulnerabilities (checkEndpointAvailability env server)) = [''endpoint-unreachable'']
       \<and> map check_name (checks (checkSSLConfiguration env server)) = [''SSL/TLS Usage'']
       \<and> map status (checks (checkSSLConfiguration env server)) = [FAIL]
       \<and> map vuln_id (vulnerabilities (checkSSLConfiguration env server)) = [''unencrypted-communication'']
       \<and> map_sum error_code overallScore (snd (analyzeServer env server)) = Inr SCORE_CRITICAL"
proof -
  from fails obtain e1 e2 e3 e4 where
    r1: "http_request env AvailabilityGet (endpoint server) = Inl e1" and
    r2: "http_request env AuthenticationGet (endpoint server) = Inl e2" and
    r3: "http_request env HttpSecurityGet (endpoint server) = Inl e3" and
    r4: "http_request env CorsOptions (endpoint server) = Inl e4"
    by (auto simp: probe_requests_def request_fails_def isl_def)
  have api: "list_all (\<lambda>ep. isl (http_request env ApiEndpointGet
      (strip_trailing_slash (endpoint server) @ ep))) api_endpoints"
    using fails by (simp add: probe_requests_def request_fails_def list_all_iff)
  have a: "checkEndpointAvailability env server = endpoint_unreachable server e1"
    by (simp add: checkEndpointAvailability_def http r1)
  have s: "checkSSLConfiguration env server =
      \<lparr>checks = [mk_check ''ssl-not-used'' ''SSL/TLS Usage'' ENCRYPTION FAIL HIGH
                     ''Server is not using SSL/TLS encryption'' None],
         recommendations = [],
         vulnerabilities = [mk_vulnerability ''unencrypted-communication''
                     ''Unencrypted Communication''
                     ''Server communication is not encrypted with SSL/TLS'' HIGH ENCRYPTION
                     (endpoint server) ''Enable HTTPS/WSS to encrypt communications'']\<rparr>"
    by (simp add: checkSSLConfiguration_def http)
  have ap: "checkAPIEndpoints env server = no_findings"
    by (simp add: checkAPIEndpoints_def api_steps_all_fail [OF api])
  let ?cs = "checks (merged (fulfilled_values (runSecurityChecks env server)))"
  have grade: "spec_grade ?cs = SCORE_CRITICAL"
    by (simp add: fulfilled_runSecurityChecks merged_def a s ap checkAuthentication_def r2
        checkHttpSecurity_def r3 http checkCORSConfiguration_def r4 checkRateLimit_def
        checkSecurityHeaders_def endpoint_unreachable_def no_findings_def mk_check_def
        spec_grade_def spec_maxScore_def spec_totalScore_def spec_gain_def spec_weight_def)
  show ?thesis
    by (simp add: a s endpoint_unreachable_def mk_check_def mk_vulnerability_def
        analyzeServer_eq calculateSecurityScore_spec grade)
qed

text \<open>The scenario of the specification: http://127.0.0.1:1 with no listener.\<close>

theorem unreachable_http_server_witness:
  "protocol (example_server ''local'' ''http://127.0.0.1:1'' Http) = Http
   \<and> list_all (request_fails offline_env)
         (probe_requests (example_server ''local'' ''http://127.0.0.1:1'' Http))
   \<and> map status (checks (checkEndpointAvailability offline_env
         (example_server ''local'' ''http://127.0.0.1:1'' Http))) = [FAIL]
   \<and> map_sum error_code overallScore
         (snd (analyzeServer offline_env (example_server ''local'' ''http://127.0.0.1:1'' Http)))
       = Inr SCORE_CRITICAL"
proof -
  have p: "protocol (example_server ''local'' ''http://127.0.0.1:1'' Http) = Http"
    by (simp add: example_server_def)
  have f: "list_all (request_fails offline_env)
      (probe_requests (example_server ''local'' ''http://127.0.0.1:1'' Http))"
    by (simp add: probe_requests_def request_fails_def offline_env_def list_all_iff)
  show ?thesis
    using unreachable_http_server_is_graded_critical [OF p f] p f by simp
qed

section \<open>Properties of the TLS probe\<close>

text \<open>
  Whenever the socket hands over a certificate object, both dates are Invalid Dates, the
  test of validity is false, and \<open>toISOString\<close> throws inside the object literal of
  the failing check: the probe returns the check ssl-check-error and nothing else.
\<close>

lemma ssl_try_with_certificate:
  assumes "parse_URL env (endpoint server) = Inr u"
    and "tls_peer_certificate env (hostname u) (ssl_port server u) = Inr (Some cert)"
  shows "ssl_try env server = Inl (JsError ''RangeError'' ''Invalid time value'')"
  using assms
  by (simp add: ssl_try_def certInfo_validFrom_def certInfo_validTo_def
      certificate_validity_def Let_def)

lemma checkSSLConfiguration_with_certificate:
  assumes "protocol server = Https \<or> protocol server = Wss"
    and "parse_URL env (endpoint server) = Inr u"
    and "tls_peer_certificate env (hostname u) (ssl_port server u) = Inr (Some cert)"
  shows "checkSSLConfiguration env server =
     no_findings\<lparr>checks := [mk_check ''ssl-check-error'' ''SSL Configuration Check''
       ENCRYPTION ERROR MEDIUM ''Could not verify SSL configuration''
       (Some ''Invalid time value'')]\<rparr>"
  using assms(1) by (auto simp: checkSSLConfiguration_def ssl_try_with_certificate [OF assms(2,3)])

text \<open>
  C4. The claim fails on the code. An https server analysed on 14 November 2023 whose
  certificate ran out the day before gets neither the failed, critical check of
  certificate validity nor the vulnerability expired-certificate: the probe reads the
  dates from \<open>certInfo.validFrom\<close> and \<open>certInfo.validTo\<close>, which the certificate object
  does not have, and returns the error check ssl-check-error alone. No recommendation
  is emitted.
\<close>

theorem expired_certificate_yields_only_error_check:
  "date_parse (tls_env ''Nov 13 22:13:20 2023 GMT'' [TLSv1_2, TLSv1_3]) ''Nov 13 22:13:20 2023 GMT''
     = Some 1699913600000
   \<and> 1699913600000 < ssl_clock (tls_env ''Nov 13 22:13:20 2023 GMT'' [TLSv1_2, TLSv1_3])
   \<and> map check_id (checks (checkSSLConfiguration
        (tls_env ''Nov 13 22:13:20 2023 GMT'' [TLSv1_2, TLSv1_3]) tls_server))
     = [''ssl-check-error'']
   \<and> map status (checks (checkSSLConfiguration
        (tls_env ''Nov 13 22:13:20 2023 GMT'' [TLSv1_2, TLSv1_3]) tls_server))
     = [ERROR]
   \<and> map check_severity (checks (checkSSLConfiguration
        (tls_env ''Nov 13 22:13:20 2023 GMT'' [TLSv1_2, TLSv1_3]) tls_server))
     = [MEDIUM]
   \<and> map details (checks (checkSSLConfiguration
        (tls_env ''Nov 13 22:13:20 2023 GMT'' [TLSv1_2, TLSv1_3]) tls_server))
     = [Some ''Invalid time value'']
   \<and> vulnerabilities (checkSSLConfiguration
        (tls_env ''Nov 13 22:13:20 2023 GMT'' [TLSv1_2, TLSv1_3]) tls_server) = []
   \<and> recommendations (checkSSLConfiguration
        (tls_env ''Nov 13 22:13:20 2023 GMT'' [TLSv1_2, TLSv1_3]) tls_server) = []"
  by (simp add: checkSSLConfiguration_def ssl_try_def tls_env_def offline_env_def tls_server_def
      example_server_def example_dates_def ssl_port_def certInfo_validFrom_def
      certInfo_validTo_def certificate_validity_def no_findings_def mk_check_def Let_def)



section \<open>Properties of the authentication probe\<close>

text \<open>
  C7. When the unauthenticated GET is answered with 200, the probe emits the check
  'Authentication Required' as a warning of medium severity, its only warning, and one
  recommendation; when it is answered with 401, the same check as a pass of high
  severity, its only check of high severity, and no recommendation. In both cases
  the only other check it can emit is the low-severity pass for authentication headers.
\<close>

theorem authentication_probe_on_200_and_401:
  assumes "http_request env AuthenticationGet (endpoint server) = Inr response"
  shows "(http_status response = 200 \<longrightarrow>
            checks (checkAuthentication env server)
              = mk_check ''authentication-required'' ''Authentication Required''
                   AUTHENTICATION WARNING MEDIUM ''Server allows unauthenticated access'' None
                # (if hasAuthHeaders response
                   then [mk_check ''auth-headers-present'' ''Authentication Headers''
                           AUTHENTICATION PASS LOW
                           ''Server includes proper authentication headers'' None]
                   else [])
          \<and> map status (filter (\<lambda>c. status c = WARNING \<or> check_severity c = MEDIUM)
                 (checks (checkAuthentication env server))) = [WARNING]
          \<and> recommendations (checkAuthentication env server)
              = [mk_recommendation ''implement-authentication'' ''Implement Authentication''
                   ''Consider implementing authentication to secure the API'' MEDIUM
                   AUTHENTICATION False None])
       \<and> (http_status response = 401 \<longrightarrow>
            checks (checkAuthentication env server)
              = mk_check ''authentication-required'' ''Authentication Required''
                   AUTHENTICATION PASS HIGH ''Server properly requires authentication'' None
                # (if hasAuthHeaders response
                   then [mk_check ''auth-headers-present'' ''Authentication Headers''
                           AUTHENTICATION PASS LOW
                           ''Server includes proper authentication headers'' None]
                   else [])
          \<and> map status (filter (\<lambda>c. check_severity c = HIGH)
                 (checks (checkAuthentication env server))) = [PASS]
          \<and> recommendations (checkAuthentication env server) = [])"
  using assms
  by (simp add: checkAuthentication_def no_findings_def mk_check_def mk_recommendation_def Let_def)

theorem authentication_probe_witness:
  "map status (checks (checkAuthentication
       (web_env (\<lambda>u. Inr (plain_response 200 ''OK'' [])))
       (example_server ''open'' ''http://open.example'' Http))) = [WARNING]
   \<and> map rec_id (recommendations (checkAuthentication
       (web_env (\<lambda>u. Inr (plain_response 200 ''OK'' [])))
       (example_server ''open'' ''http://open.example'' Http))) = [''implement-authentication'']
   \<and> map status (checks (checkAuthentication
       (web_env (\<lambda>u. Inr (plain_response 401 ''Unauthorized'' [(''www-authenticate'', ''Bearer'')])))
       (example_server ''closed'' ''http://closed.example'' Http))) = [PASS, PASS]
   \<and> map check_severity (checks (checkAuthentication
       (web_env (\<lambda>u. Inr (plain_response 401 ''Unauthorized'' [(''www-authenticate'', ''Bearer'')])))
       (example_server ''closed'' ''http://closed.example'' Http))) = [HIGH, LOW]
   \<and> recommendations (checkAuthentication
       (web_env (\<lambda>u. Inr (plain_response 401 ''Unauthorized'' [(''www-authenticate'', ''Bearer'')])))
       (example_server ''closed'' ''http://closed.example'' Http)) = []"
proof -
  let ?r200 = "plain_response 200 ''OK'' []"
  let ?r401 = "plain_response 401 ''Unauthorized'' [(''www-authenticate'', ''Bearer'')]"
  have a: "http_request (web_env (\<lambda>u. Inr ?r200)) AuthenticationGet
      (endpoint (example_server ''open'' ''http://open.example'' Http)) = Inr ?r200"
    by (simp add: web_env_def)
  have b: "http_request (web_env (\<lambda>u. Inr ?r401)) AuthenticationGet
      (endpoint (example_server ''closed'' ''http://closed.example'' Http)) = Inr ?r401"
    by (simp add: web_env_def)
  have s200: "http_status ?r200 = 200" and s401: "http_status ?r401 = 401"
    by (simp_all add: plain_response_def)
  have h200: "\<not> hasAuthHeaders ?r200"
    by (simp add: hasAuthHeaders_def header_def plain_response_def or_else_def)
  have h401: "hasAuthHeaders ?r401"
    by (simp add: hasAuthHeaders_def header_def plain_response_def or_else_def)
  show ?thesis
    using authentication_probe_on_200_and_401 [OF a] authentication_probe_on_200_and_401 [OF b]
      s200 s401 h200 h401
    by (simp add: mk_check_def mk_recommendation_def)
qed

section \<open>Properties of the reachability probe\<close>

text \<open>
  C9. For an http or https server the statuses of the checks of the reachability probe
  are: one fail when the request fails, one pass for a status in [200,300), one warning
  for a status of 400 or more, and none for any other status. In particular a final
  status in [300,400) leaves no check, no vulnerability and no recommendation.
\<close>

theorem redirect_status_yields_no_finding:
  assumes "protocol server = Http \<or> protocol server = Https"
  shows "(\<forall>response. http_request env AvailabilityGet (endpoint server) = Inr response
            \<and> 300 \<le> http_status response \<and> http_status response < 400 \<longrightarrow>
            checks (checkEndpointAvailability env server) = []
            \<and> vulnerabilities (checkEndpointAvailability env server) = []
            \<and> recommendations (checkEndpointAvailability env server) = [])
       \<and> map status (checks (checkEndpointAvailability env server))
           = (case http_request env AvailabilityGet (endpoint server) of
                Inl error \<Rightarrow> [FAIL]
              | Inr response \<Rightarrow>
                  if 200 \<le> http_status response \<and> http_status response < 300 then [PASS]
                  else if 400 \<le> http_status response then [WARNING]
                  else [])"
  using assms
  by (auto simp: checkEndpointAvailability_def endpoint_unreachable_def no_findings_def
      mk_check_def split: sum.splits)

theorem redirect_status_witness:
  "protocol (example_server ''moved'' ''http://moved.example'' Http) = Http
   \<and> http_request (web_env (\<lambda>u. Inr (plain_response 302 ''Found'' []))) AvailabilityGet
        (endpoint (example_server ''moved'' ''http://moved.example'' Http))
       = Inr (plain_response 302 ''Found'' [])
   \<and> 300 \<le> http_status (plain_response 302 ''Found'' [])
   \<and> http_status (plain_response 302 ''Found'' []) < 400
   \<and> checks (checkEndpointAvailability (web_env (\<lambda>u. Inr (plain_response 302 ''Found'' [])))
        (example_server ''moved'' ''http://moved.example'' Http)) = []
   \<and> vulnerabilities (checkEndpointAvailability
        (web_env (\<lambda>u. Inr (plain_response 302 ''Found'' [])))
        (example_server ''moved'' ''http://moved.example'' Http)) = []"
proof -
  let ?srv = "example_server ''moved'' ''http://moved.example'' Http"
  let ?env = "web_env (\<lambda>u. Inr (plain_response 302 ''Found'' []))"
  have p: "protocol ?srv = Http \<or> protocol ?srv = Https"
    by (simp add: example_server_def)
  have r: "http_request ?env AvailabilityGet (endpoint ?srv) = Inr (plain_response 302 ''Found'' [])"
    by (simp add: web_env_def)
  have st: "http_status (plain_response 302 ''Found'' []) = 302"
    by (simp add: plain_response_def)
  show ?thesis
    using redirect_status_yields_no_finding [OF p, of ?env] r st
    by (simp add: example_server_def)
qed

section \<open>Properties of the HTTP security-headers probe\<close>

lemma security_header_entry_ids:
  "map check_id (checks (security_header_entry response (h, name) f))
     = map check_id (checks f) @ [''security-header-'' @ h]"
  by (simp add: security_header_entry_def mk_check_def)

lemma security_header_entry_recs:
  "set (map rec_id (recommendations (security_header_entry response (h, name) f)))
     \<subseteq> insert (''add-'' @ h @ ''-header'') (set (map rec_id (recommendations f)))"
  by (auto simp: security_header_entry_def mk_recommendation_def)

lemma security_header_check_ids:
  "map check_id (checks (security_header_findings response)) =
     [''security-header-strict-transport-security'', ''security-header-x-content-type-options'',
      ''security-header-x-frame-options'', ''security-header-x-xss-protection'',
      ''security-header-content-security-policy'']"
  by (simp add: security_header_findings_def securityHeaders_def security_header_entry_ids
      no_findings_def)

lemma fold_security_header_recs:
  "set (map rec_id (recommendations (fold (security_header_entry response) hs f)))
     \<subseteq> set (map (\<lambda>e. ''add-'' @ fst e @ ''-header'') hs) \<union> set (map rec_id (recommendations f))"
proof (induction hs arbitrary: f)
  case Nil
  show ?case by simp
next
  case (Cons e hs)
  obtain h name where e: "e = (h, name)" by (cases e)
  show ?case
    using Cons.IH [of "security_header_entry response e f"]
      security_header_entry_recs [of response h name f]
    by (auto simp: e)
qed

lemma no_hide_server_header_before:
  "''hide-server-header'' \<notin> set (map rec_id (recommendations (security_header_findings response)))"
  using fold_security_header_recs [of response securityHeaders no_findings]
  by (auto simp: security_header_findings_def securityHeaders_def no_findings_def)

text \<open>
  C10, as the code has it. For an http or https server whose GET is answered: the five
  per-header checks come first; a Server header with a value that is not empty adds the
  warning 'Server Information Disclosure' of low severity, with the value in its details,
  and the recommendation hide-server-header; without a Server header neither is added.
\<close>

theorem server_header_disclosure:
  assumes "protocol server = Http \<or> protocol server = Https"
    and "http_request env HttpSecurityGet (endpoint server) = Inr response"
  shows "(\<forall>v. header response ''server'' = Some v \<and> v \<noteq> [] \<longrightarrow>
            checks (checkHttpSecurity env server)
              = checks (security_header_findings response)
                @ [mk_check ''server-header-disclosure'' ''Server Information Disclosure''
                     CONFIGURATION WARNING LOW ''Server header reveals server information''
                     (Some (''Server: '' @ v))]
          \<and> recommendations (checkHttpSecurity env server)
              = recommendations (security_header_findings response)
                @ [mk_recommendation ''hide-server-header'' ''Hide Server Header''
                     ''Consider hiding or minimizing server header information'' LOW
                     CONFIGURATION False None])
       \<and> (header response ''server'' = None \<and> header response ''Server'' = None \<longrightarrow>
            checkHttpSecurity env server = security_header_findings response)
       \<and> map check_id (checks (security_header_findings response)) =
            [''security-header-strict-transport-security'',
             ''security-header-x-content-type-options'', ''security-header-x-frame-options'',
             ''security-header-x-xss-protection'', ''security-header-content-security-policy'']
       \<and> ''hide-server-header'' \<notin> set (map rec_id (recommendations (security_header_findings response)))"
proof -
  have X: "checkHttpSecurity env server
             = server_header_findings response (security_header_findings response)"
    using assms by (auto simp: checkHttpSecurity_def)
  show ?thesis
    using no_hide_server_header_before [of response]
    by (simp add: X security_header_check_ids server_header_findings_def or_else_def Let_def)
qed

theorem server_header_disclosure_witness:
  "protocol (example_server ''web'' ''http://web.example'' Http) = Http
   \<and> header (plain_response 200 ''OK'' [(''server'', ''nginx/1.18.0'')]) ''server''
       = Some ''nginx/1.18.0''
   \<and> map check_id (checks (checkHttpSecurity
        (web_env (\<lambda>u. Inr (plain_response 200 ''OK'' [(''server'', ''nginx/1.18.0'')])))
        (example_server ''web'' ''http://web.example'' Http)))
     = [''security-header-strict-transport-security'', ''security-header-x-content-type-options'',
        ''security-header-x-frame-options'', ''security-header-x-xss-protection'',
        ''security-header-content-security-policy'', ''server-header-disclosure'']
   \<and> details (last (checks (checkHttpSecurity
        (web_env (\<lambda>u. Inr (plain_response 200 ''OK'' [(''server'', ''nginx/1.18.0'')])))
        (example_server ''web'' ''http://web.example'' Http))))
     = Some ''Server: nginx/1.18.0''
   \<and> header (plain_response 200 ''OK'' []) ''server'' = None
   \<and> header (plain_response 200 ''OK'' []) ''Server'' = None
   \<and> map check_id (checks (checkHttpSecurity
        (web_env (\<lambda>u. Inr (plain_response 200 ''OK'' [])))
        (example_server ''web'' ''http://web.example'' Http)))
     = [''security-header-strict-transport-security'', ''security-header-x-content-type-options'',
        ''security-header-x-frame-options'', ''security-header-x-xss-protection'',
        ''security-header-content-security-policy'']"
proof -
  let ?srv = "example_server ''web'' ''http://web.example'' Http"
  let ?r1 = "plain_response 200 ''OK'' [(''server'', ''nginx/1.18.0'')]"
  let ?r2 = "plain_response 200 ''OK'' []"
  have p: "protocol ?srv = Http \<or> protocol ?srv = Https"
    by (simp add: example_server_def)
  have p': "protocol ?srv = Http"
    by (simp add: example_server_def)
  have a: "http_request (web_env (\<lambda>u. Inr ?r1)) HttpSecurityGet (endpoint ?srv) = Inr ?r1"
    by (simp add: web_env_def)
  have b: "http_request (web_env (\<lambda>u. Inr ?r2)) HttpSecurityGet (endpoint ?srv) = Inr ?r2"
    by (simp add: web_env_def)
  have h1: "header ?r1 ''server'' = Some ''nginx/1.18.0''"
    by (simp add: header_def plain_response_def)
  have h2: "header ?r2 ''server'' = None" "header ?r2 ''Server'' = None"
    by (simp_all add: header_def plain_response_def)
  note t1 = server_header_disclosure [OF p a]
  note t2 = server_header_disclosure [OF p b]
  have c1: "checks (checkHttpSecurity (web_env (\<lambda>u. Inr ?r1)) ?srv)
      = checks (security_header_findings ?r1)
        @ [mk_check ''server-header-disclosure'' ''Server Information Disclosure''
             CONFIGURATION WARNING LOW ''Server header reveals server information''
             (Some (''Server: '' @ ''nginx/1.18.0''))]"
    using t1 h1 by blast
  have ids1: "map check_id (checks (security_header_findings ?r1)) =
            [''security-header-strict-transport-security'',
             ''security-header-x-content-type-options'', ''security-header-x-frame-options'',
             ''security-header-x-xss-protection'', ''security-header-content-security-policy'']"
    using t1 by blast
  have c2: "checkHttpSecurity (web_env (\<lambda>u. Inr ?r2)) ?srv = security_header_findings ?r2"
    using t2 h2 by blast
  have ids2: "map check_id (checks (security_header_findings ?r2)) =
            [''security-header-strict-transport-security'',
             ''security-header-x-content-type-options'', ''security-header-x-frame-options'',
             ''security-header-x-xss-protection'', ''security-header-content-security-policy'']"
    using t2 by blast
  have d1: "map check_id (checks (checkHttpSecurity (web_env (\<lambda>u. Inr ?r1)) ?srv)) =
        [''security-header-strict-transport-security'', ''security-header-x-content-type-options'',
        ''security-header-x-frame-options'', ''security-header-x-xss-protection'',
        ''security-header-content-security-policy'', ''server-header-disclosure'']"
    unfolding c1 by (simp add: ids1 mk_check_def)
  have d2: "details (last (checks (checkHttpSecurity (web_env (\<lambda>u. Inr ?r1)) ?srv)))
      = Some ''Server: nginx/1.18.0''"
    unfolding c1 by (simp add: mk_check_def)
  show ?thesis
    using p' h1 h2 d1 d2 ids2 unfolding c2 by blast
qed

text \<open>
  C10, as the claim has it, fails: a response whose Server header has the empty value
  gives the five per-header checks and recommendations and nothing else.
\<close>

theorem empty_server_header_is_not_reported:
  "header (plain_response 200 ''OK'' [(''server'', [])]) ''server'' = Some []
   \<and> map check_id (checks (checkHttpSecurity
        (web_env (\<lambda>u. Inr (plain_response 200 ''OK'' [(''server'', [])])))
        (example_server ''quiet'' ''http://quiet.example'' Http)))
     = [''security-header-strict-transport-security'', ''security-header-x-content-type-options'',
        ''security-header-x-frame-options'', ''security-header-x-xss-protection'',
        ''security-header-content-security-policy'']
   \<and> ''hide-server-header'' \<notin> set (map rec_id (recommendations (checkHttpSecurity
        (web_env (\<lambda>u. Inr (plain_response 200 ''OK'' [(''server'', [])])))
        (example_server ''quiet'' ''http://quiet.example'' Http))))"
proof -
  let ?r = "plain_response 200 ''OK'' [(''server'', [])]"
  have X: "checkHttpSecurity (web_env (\<lambda>u. Inr ?r))
        (example_server ''quiet'' ''http://quiet.example'' Http) = security_header_findings ?r"
    by (simp add: checkHttpSecurity_def web_env_def example_server_def server_header_findings_def
        or_else_def header_def plain_response_def)
  show ?thesis
    using no_hide_server_header_before [of ?r]
    by (simp add: X security_header_check_ids) (simp add: header_def plain_response_def)
qed

end
